theory Spec2Isabelle
  imports Main
begin

section \<open>Python values\<close>

text \<open>
  The generators read JSON documents, so a property descriptor is a dictionary whose
  values are JSON values. Numbers with a fractional part are left out of the model.
  Text is the list of the bytes of its UTF-8 encoding, so every text of the model can be
  printed and written to a file.
\<close>

datatype pyval =
    PNone
  | PBool bool
  | PInt int
  | PStr string
  | PList "pyval list"
  | PDict "(string \<times> pyval) list"

subsection \<open>Text of values: \<^verbatim>\<open>str\<close>, \<^verbatim>\<open>repr\<close>, \<^verbatim>\<open>join\<close>, \<^verbatim>\<open>upper\<close>\<close>

fun show_nat :: "nat \<Rightarrow> string" where
  "show_nat n =
     (if n < 10 then [''0123456789'' ! n]
      else show_nat (n div 10) @ [''0123456789'' ! (n mod 10)])"

declare show_nat.simps [simp del]

definition show_int :: "int \<Rightarrow> string" where
  "show_int i = (if i < 0 then ''-'' @ show_nat (nat (- i)) else show_nat (nat i))"

text \<open>\<^verbatim>\<open>sep.join(xs)\<close>\<close>

fun join :: "string \<Rightarrow> string list \<Rightarrow> string" where
  "join sep [] = []"
| "join sep [x] = x"
| "join sep (x # y # ys) = x @ sep @ join sep (y # ys)"

definition hex_digit :: "nat \<Rightarrow> char" where
  "hex_digit n = ''0123456789abcdef'' ! n"

text \<open>
  What \<^verbatim>\<open>str.upper\<close> and \<^verbatim>\<open>repr\<close> make of a text that holds characters
  beyond ASCII depends on the Unicode tables of the interpreter. The model computes both
  on ASCII text and takes them as parameters on any other text.
\<close>

definition is_ascii :: "string \<Rightarrow> bool" where
  "is_ascii s = list_all (\<lambda>c. of_char c < (128::nat)) s"

record unicode_tables =
  uni_upper :: "string \<Rightarrow> string"
  uni_repr :: "string \<Rightarrow> string"

text \<open>
  \<^verbatim>\<open>repr\<close> of an ASCII string: double quotes when the text has a single quote and
  no double quote, single quotes otherwise; the quote and the backslash are escaped, tab,
  newline and carriage return are written with their letters, other control characters
  in hexadecimal.
\<close>

definition repr_char :: "char \<Rightarrow> char \<Rightarrow> string" where
  "repr_char q c =
     (if c = q \<or> c = CHR 0x5C then [CHR 0x5C, c]
      else if c = CHR 0x09 then [CHR 0x5C, CHR ''t'']
      else if c = CHR 0x0A then [CHR 0x5C, CHR ''n'']
      else if c = CHR 0x0D then [CHR 0x5C, CHR ''r'']
      else if of_char c < (32::nat) \<or> of_char c = (127::nat)
        then [CHR 0x5C, CHR ''x'', hex_digit (of_char c div 16), hex_digit (of_char c mod 16)]
      else [c])"

definition ascii_repr :: "string \<Rightarrow> string" where
  "ascii_repr s =
     (let q = (if CHR 0x27 \<in> set s \<and> CHR 0x22 \<notin> set s then CHR 0x22 else CHR 0x27)
      in [q] @ concat (map (repr_char q) s) @ [q])"

text \<open>\<^verbatim>\<open>repr(s)\<close> for a string.\<close>

definition repr_str :: "unicode_tables \<Rightarrow> string \<Rightarrow> string" where
  "repr_str U s = (if is_ascii s then ascii_repr s else uni_repr U s)"

fun py_repr :: "unicode_tables \<Rightarrow> pyval \<Rightarrow> string" where
  "py_repr U PNone = ''None''"
| "py_repr U (PBool v) = (if v then ''True'' else ''False'')"
| "py_repr U (PInt i) = show_int i"
| "py_repr U (PStr s) = repr_str U s"
| "py_repr U (PList xs) = ''['' @ join '', '' (map (py_repr U) xs) @ '']''"
| "py_repr U (PDict kvs) =
     ''{'' @ join '', '' (map (\<lambda>(k, v). repr_str U k @ '': '' @ py_repr U v) kvs) @ ''}''"

text \<open>\<^verbatim>\<open>str(v)\<close>, which is what an f-string substitutes.\<close>

definition py_str :: "unicode_tables \<Rightarrow> pyval \<Rightarrow> string" where
  "py_str U v = (case v of PStr s \<Rightarrow> s | _ \<Rightarrow> py_repr U v)"

text \<open>The truth value of a value in a condition.\<close>

fun truthy :: "pyval \<Rightarrow> bool" where
  "truthy PNone = False"
| "truthy (PBool v) = v"
| "truthy (PInt i) = (i \<noteq> 0)"
| "truthy (PStr s) = (s \<noteq> [])"
| "truthy (PList xs) = (xs \<noteq> [])"
| "truthy (PDict kvs) = (kvs \<noteq> [])"

definition upper_char :: "char \<Rightarrow> char" where
  "upper_char c =
     (if (97::nat) \<le> of_char c \<and> of_char c \<le> (122::nat)
      then ''ABCDEFGHIJKLMNOPQRSTUVWXYZ'' ! (of_char c - 97) else c)"

text \<open>\<^verbatim>\<open>s.upper()\<close>\<close>

definition upper :: "unicode_tables \<Rightarrow> string \<Rightarrow> string" where
  "upper U s = (if is_ascii s then map upper_char s else uni_upper U s)"

subsection \<open>Exceptions\<close>

text \<open>
  Every exception of the model is caught by \<^verbatim>\<open>except Exception\<close>. The errors of
  the operating system carry the text of the path they were raised for, the others the
  text that \<^verbatim>\<open>str(e)\<close> gives. \<open>NameTooLongError\<close> is the plain
  \<^verbatim>\<open>OSError\<close> with error number 36.
\<close>

datatype exception =
    KeyError string
  | TypeError string
  | IndexError string
  | AttributeError string
  | ValueError string
  | FileNotFoundError string
  | FileExistsError string
  | NotADirectoryError string
  | IsADirectoryError string
  | NameTooLongError string
  | OtherError string

text \<open>\<^verbatim>\<open>str(e)\<close>\<close>

fun exception_str :: "unicode_tables \<Rightarrow> exception \<Rightarrow> string" where
  "exception_str U (KeyError s) = s"
| "exception_str U (TypeError s) = s"
| "exception_str U (IndexError s) = s"
| "exception_str U (AttributeError s) = s"
| "exception_str U (ValueError s) = s"
| "exception_str U (FileNotFoundError p) =
     ''[Errno 2] No such file or directory: '' @ repr_str U p"
| "exception_str U (FileExistsError p) = ''[Errno 17] File exists: '' @ repr_str U p"
| "exception_str U (NotADirectoryError p) = ''[Errno 20] Not a directory: '' @ repr_str U p"
| "exception_str U (IsADirectoryError p) = ''[Errno 21] Is a directory: '' @ repr_str U p"
| "exception_str U (NameTooLongError p) = ''[Errno 36] File name too long: '' @ repr_str U p"
| "exception_str U (OtherError s) = s"

text \<open>The errors of the operating system, those that \<^verbatim>\<open>except OSError\<close> catches.\<close>

definition is_os_error :: "exception \<Rightarrow> bool" where
  "is_os_error e =
     (case e of FileNotFoundError p \<Rightarrow> True | FileExistsError p \<Rightarrow> True
      | NotADirectoryError p \<Rightarrow> True | IsADirectoryError p \<Rightarrow> True
      | NameTooLongError p \<Rightarrow> True | _ \<Rightarrow> False)"

subsection \<open>Dictionaries with string keys\<close>

type_synonym 'v dict = "string \<rightharpoonup> 'v"

text \<open>\<^verbatim>\<open>d.get(k, default)\<close>\<close>

definition dict_get :: "'v dict \<Rightarrow> string \<Rightarrow> 'v \<Rightarrow> 'v" where
  "dict_get d k dflt = (case d k of None \<Rightarrow> dflt | Some v \<Rightarrow> v)"

text \<open>
  \<^verbatim>\<open>v in d\<close> for a dictionary whose keys are all strings: a list or a dictionary
  cannot be hashed, any other value that is not a string is simply not a key.
\<close>

fun py_in :: "pyval \<Rightarrow> 'v dict \<Rightarrow> exception + bool" where
  "py_in (PStr s) d = Inr (d s \<noteq> None)"
| "py_in (PList xs) d = Inl (TypeError (''unhashable type: 'list'' @ [CHR 0x27]))"
| "py_in (PDict kvs) d = Inl (TypeError (''unhashable type: 'dict'' @ [CHR 0x27]))"
| "py_in v d = Inr False"

text \<open>\<^verbatim>\<open>d[v]\<close> for the same kind of dictionary.\<close>

fun py_getitem :: "unicode_tables \<Rightarrow> 'v dict \<Rightarrow> pyval \<Rightarrow> exception + 'v" where
  "py_getitem U d (PStr s) =
     (case d s of None \<Rightarrow> Inl (KeyError (repr_str U s)) | Some x \<Rightarrow> Inr x)"
| "py_getitem U d (PList xs) = Inl (TypeError (''unhashable type: 'list'' @ [CHR 0x27]))"
| "py_getitem U d (PDict kvs) = Inl (TypeError (''unhashable type: 'dict'' @ [CHR 0x27]))"
| "py_getitem U d v = Inl (KeyError (py_repr U v))"

text \<open>Lists and dictionaries cannot be hashed, so they cannot be looked up as keys.\<close>

definition hashable :: "pyval \<Rightarrow> bool" where
  "hashable v = (case v of PList xs \<Rightarrow> False | PDict kvs \<Rightarrow> False | _ \<Rightarrow> True)"

section \<open>Type mapper (core/type\_mapper.py)\<close>

definition postgresql_map :: "string dict" where
  "postgresql_map = map_of
     [(''integer'', ''INTEGER''),
      (''integer_int64'', ''BIGINT''),
      (''string'', ''VARCHAR(255)''),
      (''string_date-time'', ''TIMESTAMPTZ''),
      (''string_date'', ''DATE''),
      (''string_uuid'', ''VARCHAR(36)''),
      (''boolean'', ''BOOLEAN''),
      (''number'', ''DECIMAL(10,2)''),
      (''number_float'', ''REAL''),
      (''number_double'', ''DOUBLE PRECISION''),
      (''uuid_pk'', ''UUID DEFAULT gen_random_uuid() PRIMARY KEY'')]"

definition mysql_map :: "string dict" where
  "mysql_map = map_of
     [(''integer'', ''INT''),
      (''integer_int64'', ''BIGINT''),
      (''string'', ''VARCHAR(255)''),
      (''string_date-time'', ''DATETIME''),
      (''string_date'', ''DATE''),
      (''string_uuid'', ''VARCHAR(36)''),
      (''boolean'', ''BOOLEAN''),
      (''number'', ''DECIMAL(10,2)''),
      (''number_float'', ''FLOAT''),
      (''number_double'', ''DOUBLE''),
      (''uuid_pk'', ''CHAR(36) DEFAULT (UUID()) PRIMARY KEY'')]"

definition sqlserver_map :: "string dict" where
  "sqlserver_map = map_of
     [(''integer'', ''INT''),
      (''integer_int64'', ''BIGINT''),
      (''string'', ''NVARCHAR(255)''),
      (''string_date-time'', ''DATETIME2''),
      (''string_date'', ''DATE''),
      (''string_uuid'', ''UNIQUEIDENTIFIER''),
      (''boolean'', ''BIT''),
      (''number'', ''DECIMAL(10,2)''),
      (''number_float'', ''REAL''),
      (''number_double'', ''FLOAT''),
      (''uuid_pk'', ''UNIQUEIDENTIFIER DEFAULT NEWID() PRIMARY KEY'')]"

definition oracle_map :: "string dict" where
  "oracle_map = map_of
     [(''integer'', ''NUMBER(10)''),
      (''integer_int64'', ''NUMBER(19)''),
      (''string'', ''VARCHAR2(255)''),
      (''string_date-time'', ''TIMESTAMP''),
      (''string_date'', ''DATE''),
      (''string_uuid'', ''VARCHAR2(36)''),
      (''boolean'', ''NUMBER(1)''),
      (''number'', ''NUMBER(10,2)''),
      (''number_float'', ''BINARY_FLOAT''),
      (''number_double'', ''BINARY_DOUBLE''),
      (''uuid_pk'', ''RAW(16) DEFAULT SYS_GUID() PRIMARY KEY'')]"

definition TYPE_MAPPING :: "(string dict) dict" where
  "TYPE_MAPPING = map_of
     [(''postgresql'', postgresql_map),
      (''mysql'', mysql_map),
      (''sqlserver'', sqlserver_map),
      (''oracle'', oracle_map)]"

text \<open>
  The lookup key of a descriptor: \<^verbatim>\<open>f"{json_type}_{json_format}" if json_format else json_type\<close>,
  with \<^verbatim>\<open>json_type = prop.get('type')\<close> and \<^verbatim>\<open>json_format = prop.get('format', '')\<close>.
\<close>

definition json_type_of :: "pyval dict \<Rightarrow> pyval" where
  "json_type_of prop = dict_get prop ''type'' PNone"

definition json_format_of :: "pyval dict \<Rightarrow> pyval" where
  "json_format_of prop = dict_get prop ''format'' (PStr [])"

definition type_key_of :: "unicode_tables \<Rightarrow> pyval dict \<Rightarrow> pyval" where
  "type_key_of U prop =
     (if truthy (json_format_of prop)
      then PStr (py_str U (json_type_of prop) @ ''_'' @ py_str U (json_format_of prop))
      else json_type_of prop)"

definition get_sql_type :: "unicode_tables \<Rightarrow> pyval dict \<Rightarrow> string \<Rightarrow> exception + string" where
  "get_sql_type U prop dialect =
     (case py_getitem U TYPE_MAPPING (PStr dialect) of
        Inl e \<Rightarrow> Inl e
      | Inr dialect_map \<Rightarrow>
          if json_type_of prop = PStr ''uuid_pk''
          then py_getitem U dialect_map (PStr ''uuid_pk'')
          else
            (case py_in (type_key_of U prop) dialect_map of
               Inl e \<Rightarrow> Inl e
             | Inr True \<Rightarrow> py_getitem U dialect_map (type_key_of U prop)
             | Inr False \<Rightarrow>
                 (case py_in (json_type_of prop) dialect_map of
                    Inl e \<Rightarrow> Inl e
                  | Inr True \<Rightarrow> py_getitem U dialect_map (json_type_of prop)
                  | Inr False \<Rightarrow> Inr ''VARCHAR(255)'')))"

section \<open>Paths and the file tree\<close>

text \<open>
  A \<^verbatim>\<open>pathlib\<close> path on a POSIX system: its root (empty for a relative path) and
  its components. Symbolic links, permissions and the component \<^verbatim>\<open>..\<close> are
  outside the model. Where library versions differ, \<^verbatim>\<open>pathlib\<close> is the one of
  Python 3.11.
\<close>

datatype path = PurePath (anchor: string) (parts: "string list")

fun split_slash :: "string \<Rightarrow> string list" where
  "split_slash [] = [[]]"
| "split_slash (c # cs) =
     (if c = CHR ''/'' then [] # split_slash cs
      else (case split_slash cs of [] \<Rightarrow> [[c]] | w # ws \<Rightarrow> (c # w) # ws))"

definition root_of :: "string \<Rightarrow> string" where
  "root_of s =
     (if take 2 s = ''//'' \<and> take 3 s \<noteq> ''///'' then ''//''
      else if take 1 s = ''/'' then ''/''
      else [])"

text \<open>\<^verbatim>\<open>Path(s)\<close>: empty components and \<^verbatim>\<open>.\<close> are dropped.\<close>

definition Path :: "string \<Rightarrow> path" where
  "Path s = PurePath (root_of s) (filter (\<lambda>c. c \<noteq> [] \<and> c \<noteq> ''.'') (split_slash s))"

text \<open>\<^verbatim>\<open>p / s\<close>: an absolute right operand replaces the left one.\<close>

definition joinpath :: "path \<Rightarrow> string \<Rightarrow> path" where
  "joinpath p s =
     (let q = Path s
      in if anchor q \<noteq> [] then q else PurePath (anchor p) (parts p @ parts q))"

text \<open>\<^verbatim>\<open>str(p)\<close>\<close>

definition path_str :: "path \<Rightarrow> string" where
  "path_str p =
     (if anchor p = [] \<and> parts p = [] then ''.'' else anchor p @ join ''/'' (parts p))"

text \<open>\<^verbatim>\<open>p.parent\<close>\<close>

definition parent :: "path \<Rightarrow> path" where
  "parent p = PurePath (anchor p) (butlast (parts p))"


text \<open>
  The file tree: the text of every regular file and the set of directories. A path
  without components (the root, or the current directory) is always a directory.
\<close>

record filesystem =
  files :: "path \<rightharpoonup> string"
  dirs :: "path set"

definition is_dir :: "filesystem \<Rightarrow> path \<Rightarrow> bool" where
  "is_dir fs p = (parts p = [] \<or> p \<in> dirs fs)"

definition is_file :: "filesystem \<Rightarrow> path \<Rightarrow> bool" where
  "is_file fs p = (parts p \<noteq> [] \<and> p \<notin> dirs fs \<and> files fs p \<noteq> None)"

text \<open>
  The limits of Linux: a component holds at most 255 bytes, and a path given to the
  system fewer than 4096.
\<close>

definition NAME_MAX :: nat where
  "NAME_MAX = 255"

definition PATH_MAX :: nat where
  "PATH_MAX = 4096"

text \<open>
  The walk the system makes through the directories above a path, given the components
  already passed and those still to pass: it stops at the first one whose name is too
  long, or that is a regular file, or that does not exist.
\<close>

fun walk_dirs :: "filesystem \<Rightarrow> path \<Rightarrow> string list \<Rightarrow> string list \<Rightarrow> exception option" where
  "walk_dirs fs p seen [] = None"
| "walk_dirs fs p seen (c # cs) =
     (let q = PurePath (anchor p) (seen @ [c])
      in if NAME_MAX < length c then Some (NameTooLongError (path_str p))
         else if is_file fs q then Some (NotADirectoryError (path_str p))
         else if \<not> is_dir fs q then Some (FileNotFoundError (path_str p))
         else walk_dirs fs p (seen @ [c]) cs)"

definition walk_parent :: "filesystem \<Rightarrow> path \<Rightarrow> exception option" where
  "walk_parent fs p = walk_dirs fs p [] (butlast (parts p))"

text \<open>
  What stops a system call on a path before the path itself is looked at: Python refuses
  a path that holds a NUL byte, the system refuses a path that is too long, then makes
  the walk, then refuses a last component that is too long.
\<close>

definition path_error :: "filesystem \<Rightarrow> path \<Rightarrow> exception option" where
  "path_error fs p =
     (if CHR 0x00 \<in> set (path_str p) then Some (ValueError ''embedded null byte'')
      else if PATH_MAX \<le> length (path_str p) then Some (NameTooLongError (path_str p))
      else (case walk_parent fs p of
              Some e \<Rightarrow> Some e
            | None \<Rightarrow>
                if parts p \<noteq> [] \<and> NAME_MAX < length (last (parts p))
                then Some (NameTooLongError (path_str p))
                else None))"

text \<open>
  \<^verbatim>\<open>p.exists()\<close>: a NUL byte, a missing directory and a regular file in the place of
  a directory give \<^verbatim>\<open>False\<close>; any other error is raised.
\<close>

definition path_exists :: "filesystem \<Rightarrow> path \<Rightarrow> exception + bool" where
  "path_exists fs p =
     (case path_error fs p of
        None \<Rightarrow> Inr (is_dir fs p \<or> is_file fs p)
      | Some (ValueError x) \<Rightarrow> Inr False
      | Some (FileNotFoundError x) \<Rightarrow> Inr False
      | Some (NotADirectoryError x) \<Rightarrow> Inr False
      | Some e \<Rightarrow> Inl e)"

text \<open>
  \<^verbatim>\<open>p.is_dir()\<close> where \<^verbatim>\<open>mkdir\<close> calls it, in the handler of an error of the
  system call on the same path: when the call was stopped before the path was looked at,
  the directory is not found (or the same error is raised once more).
\<close>

definition path_is_dir :: "filesystem \<Rightarrow> path \<Rightarrow> bool" where
  "path_is_dir fs p = (path_error fs p = None \<and> is_dir fs p)"

text \<open>\<^verbatim>\<open>os.mkdir(p)\<close>\<close>

definition os_mkdir :: "filesystem \<Rightarrow> path \<Rightarrow> (exception + unit) \<times> filesystem" where
  "os_mkdir fs p =
     (case path_error fs p of
        Some e \<Rightarrow> (Inl e, fs)
      | None \<Rightarrow>
          if is_dir fs p \<or> is_file fs p then (Inl (FileExistsError (path_str p)), fs)
          else (Inr (), fs\<lparr>dirs := insert p (dirs fs)\<rparr>))"

text \<open>
  \<^verbatim>\<open>p.mkdir(parents=False, exist_ok=True)\<close>: an error of the operating system other
  than a missing parent is dropped when the path is a directory; any other exception
  is raised.
\<close>

definition mkdir_exist_ok :: "filesystem \<Rightarrow> path \<Rightarrow> (exception + unit) \<times> filesystem" where
  "mkdir_exist_ok fs p =
     (case os_mkdir fs p of
        (Inr u, fs') \<Rightarrow> (Inr (), fs')
      | (Inl (FileNotFoundError x), fs') \<Rightarrow> (Inl (FileNotFoundError x), fs')
      | (Inl e, fs') \<Rightarrow>
          if is_os_error e \<and> path_is_dir fs' p then (Inr (), fs') else (Inl e, fs'))"

text \<open>
  \<^verbatim>\<open>p.mkdir(parents=True, exist_ok=True)\<close>: when a parent is missing, the parent is
  made in the same way and the directory is tried once more.
\<close>

function mkdir_parents :: "filesystem \<Rightarrow> path \<Rightarrow> (exception + unit) \<times> filesystem" where
  "mkdir_parents fs p =
     (case os_mkdir fs p of
        (Inr u, fs') \<Rightarrow> (Inr (), fs')
      | (Inl (FileNotFoundError x), fs') \<Rightarrow>
          if parent p = p then (Inl (FileNotFoundError x), fs')
          else (case mkdir_parents fs' (parent p) of
                  (Inl e, fs'') \<Rightarrow> (Inl e, fs'')
                | (Inr u, fs'') \<Rightarrow> mkdir_exist_ok fs'' p)
      | (Inl e, fs') \<Rightarrow>
          if is_os_error e \<and> path_is_dir fs' p then (Inr (), fs') else (Inl e, fs'))"
  by pat_completeness auto
termination
  apply (relation "measure (\<lambda>(fs, p). length (parts p))")
   apply simp
  apply (case_tac p)
  apply (case_tac "parts p")
   apply (auto simp: parent_def)
  done

declare mkdir_parents.simps [simp del]

text \<open>\<^verbatim>\<open>with open(p, 'w', encoding='utf-8') as f: f.write(content)\<close>\<close>

definition write_text :: "filesystem \<Rightarrow> path \<Rightarrow> string \<Rightarrow> (exception + unit) \<times> filesystem" where
  "write_text fs p content =
     (case path_error fs p of
        Some e \<Rightarrow> (Inl e, fs)
      | None \<Rightarrow>
          if is_dir fs p then (Inl (IsADirectoryError (path_str p)), fs)
          else (Inr (), fs\<lparr>files := (files fs)(p \<mapsto> content)\<rparr>))"

text \<open>
  A path can be opened for writing when nothing stops the call before the path is looked
  at (no NUL byte, names within the limits, every directory above it there) and the path
  itself is not a directory.
\<close>

definition writable :: "filesystem \<Rightarrow> path \<Rightarrow> bool" where
  "writable fs p = (path_error fs p = None \<and> \<not> is_dir fs p)"

section \<open>File writer (utils/file\_writer.py)\<close>

record FileWriter =
  fw_output_dir :: path
  fw_dialect :: string

text \<open>\<^verbatim>\<open>FileWriter(output_dir, dialect)\<close>\<close>

definition FileWriter_init ::
    "string \<Rightarrow> string \<Rightarrow> filesystem \<Rightarrow> (exception + FileWriter) \<times> filesystem" where
  "FileWriter_init output_dir dialect fs =
     (let d = joinpath (Path output_dir) dialect
      in case mkdir_parents fs d of
           (Inl e, fs') \<Rightarrow> (Inl e, fs')
         | (Inr u, fs') \<Rightarrow> (Inr \<lparr>fw_output_dir = d, fw_dialect = dialect\<rparr>, fs'))"

definition header :: "unicode_tables \<Rightarrow> string \<Rightarrow> string \<Rightarrow> string" where
  "header U service_name dialect =
     ''-- SQL DDL for '' @ service_name @ [CHR 0x0A] @
     ''-- Database: '' @ upper U dialect @ [CHR 0x0A] @
     ''-- Generated automatically from OpenAPI specification'' @ [CHR 0x0A] @
     ''-- Do not edit manually'' @ [CHR 0x0A] @
     [CHR 0x0A]"

definition write_sql_file ::
    "unicode_tables \<Rightarrow> FileWriter \<Rightarrow> string \<Rightarrow> string list \<Rightarrow> filesystem \<Rightarrow>
     (exception + path) \<times> filesystem" where
  "write_sql_file U self service_name sql_statements fs =
     (let filename = service_name @ ''.sql'';
          file_path = joinpath (fw_output_dir self) filename;
          content = header U service_name (fw_dialect self)
                    @ join [CHR 0x0A, CHR 0x0A] sql_statements
      in case write_text fs file_path content of
           (Inl e, fs') \<Rightarrow> (Inl e, fs')
         | (Inr u, fs') \<Rightarrow> (Inr file_path, fs'))"

section \<open>Orchestrator (main.py)\<close>

text \<open>What a run can change and show: the file tree and the lines printed.\<close>

record world =
  w_fs :: filesystem
  w_out :: "string list"

definition print :: "world \<Rightarrow> string \<Rightarrow> world" where
  "print w line = w\<lparr>w_out := w_out w @ [line]\<rparr>"

text \<open>
  The processor (core/openapi\_processor.py) and the SQL generator
  (generators/sql\_generator.py) are not among the sources. Their methods are parameters
  of the model, each free to raise; they read the file tree and do not change it. The
  schemas of a document are a dictionary from table name to schema, kept in its order.
\<close>

record file_info =
  info_service_name :: string
  info_file_path :: string

record ('spec, 'schema) processor =
  find_openapi_files :: "filesystem \<Rightarrow> exception + file_info list"
  load_openapi_spec :: "filesystem \<Rightarrow> string \<Rightarrow> exception + 'spec"
  extract_response_schemas :: "'spec \<Rightarrow> exception + (string \<times> 'schema) list"

record 'schema sql_generator =
  generate_create_table :: "string \<Rightarrow> 'schema \<Rightarrow> exception + string option"
  generate_indexes :: "string \<Rightarrow> 'schema \<Rightarrow> exception + string list"

record ('spec, 'schema) OpenApiSqlGenerator =
  gen_processor :: "('spec, 'schema) processor"
  gen_file_writer :: FileWriter
  gen_dialect :: string
  gen_supported_dialects :: "string list"

definition supported_dialects :: "string list" where
  "supported_dialects = [''postgresql'', ''mysql'', ''sqlserver'', ''oracle'']"

text \<open>
  \<^verbatim>\<open>OpenApiSqlGenerator(build_dir, output_dir, dialect)\<close>. The constructor of the
  processor is the parameter \<open>OpenApiProcessor\<close>.
\<close>

definition OpenApiSqlGenerator_init ::
    "unicode_tables \<Rightarrow>
     (string \<Rightarrow> filesystem \<Rightarrow> (exception + ('spec, 'schema) processor) \<times> filesystem) \<Rightarrow>
     string \<Rightarrow> string \<Rightarrow> string \<Rightarrow> filesystem \<Rightarrow>
     (exception + ('spec, 'schema) OpenApiSqlGenerator) \<times> filesystem" where
  "OpenApiSqlGenerator_init U OpenApiProcessor build_dir output_dir dialect fs =
     (case OpenApiProcessor build_dir fs of
        (Inl e, fs1) \<Rightarrow> (Inl e, fs1)
      | (Inr proc, fs1) \<Rightarrow>
          (case FileWriter_init output_dir dialect fs1 of
             (Inl e, fs2) \<Rightarrow> (Inl e, fs2)
           | (Inr writer, fs2) \<Rightarrow>
               if dialect \<notin> set supported_dialects
               then (Inl (ValueError (''Unsupported dialect: '' @ dialect @ ''. Supported: ''
                                      @ py_repr U (PList (map PStr supported_dialects)))), fs2)
               else (Inr \<lparr>gen_processor = proc, gen_file_writer = writer,
                          gen_dialect = dialect,
                          gen_supported_dialects = supported_dialects\<rparr>, fs2)))"

text \<open>
  The loop over \<^verbatim>\<open>schemas.items()\<close>: a CREATE TABLE that is neither absent nor empty
  is appended, then the indexes.
\<close>

fun collect_statements ::
    "'schema sql_generator \<Rightarrow> (string \<times> 'schema) list \<Rightarrow> string list \<Rightarrow> exception + string list" where
  "collect_statements g [] sql_statements = Inr sql_statements"
| "collect_statements g ((table_name, schema_def) # rest) sql_statements =
     (case generate_create_table g table_name schema_def of
        Inl e \<Rightarrow> Inl e
      | Inr create_table \<Rightarrow>
          (let stmts1 = (case create_table of
                           None \<Rightarrow> sql_statements
                         | Some s \<Rightarrow> if s \<noteq> [] then sql_statements @ [s] else sql_statements)
           in case generate_indexes g table_name schema_def of
                Inl e \<Rightarrow> Inl e
              | Inr indexes \<Rightarrow> collect_statements g rest (stmts1 @ indexes)))"

text \<open>
  The body of the \<^verbatim>\<open>try\<close> for one service. The constructor of the SQL generator is
  the parameter \<open>SqlGenerator\<close>.
\<close>

definition try_service ::
    "unicode_tables \<Rightarrow> (string \<Rightarrow> exception + 'schema sql_generator) \<Rightarrow>
     ('spec, 'schema) OpenApiSqlGenerator \<Rightarrow>
     file_info \<Rightarrow> world \<Rightarrow> (exception + unit) \<times> world" where
  "try_service U SqlGenerator self file_info w =
     (case load_openapi_spec (gen_processor self) (w_fs w) (info_file_path file_info) of
        Inl e \<Rightarrow> (Inl e, w)
      | Inr openapi_spec \<Rightarrow>
          (case extract_response_schemas (gen_processor self) openapi_spec of
             Inl e \<Rightarrow> (Inl e, w)
           | Inr schemas \<Rightarrow>
               if schemas = []
               then (Inr (), print w (''  No Response/Status schemas found in ''
                                      @ info_service_name file_info))
               else
                 (let w1 = print w (''  Found '' @ show_nat (length schemas) @ '' schemas: ''
                                    @ py_repr U (PList (map (PStr \<circ> fst) schemas)))
                  in case SqlGenerator (gen_dialect self) of
                       Inl e \<Rightarrow> (Inl e, w1)
                     | Inr generator \<Rightarrow>
                         (case collect_statements generator schemas [] of
                            Inl e \<Rightarrow> (Inl e, w1)
                          | Inr sql_statements \<Rightarrow>
                              if sql_statements \<noteq> []
                              then (case write_sql_file U (gen_file_writer self)
                                           (info_service_name file_info) sql_statements (w_fs w1) of
                                      (Inl e, fs') \<Rightarrow> (Inl e, w1\<lparr>w_fs := fs'\<rparr>)
                                    | (Inr output_file, fs') \<Rightarrow>
                                        (Inr (), print (w1\<lparr>w_fs := fs'\<rparr>)
                                                  (''  Generated: '' @ path_str output_file)))
                              else (Inr (), print w1 (''  No valid schemas found for ''
                                                      @ info_service_name file_info))))))"

text \<open>One turn of the loop over the files: the \<^verbatim>\<open>try\<close> and its handler.\<close>

definition process_service ::
    "unicode_tables \<Rightarrow> (string \<Rightarrow> exception + 'schema sql_generator) \<Rightarrow>
     ('spec, 'schema) OpenApiSqlGenerator \<Rightarrow>
     world \<Rightarrow> file_info \<Rightarrow> world" where
  "process_service U SqlGenerator self w file_info =
     (case try_service U SqlGenerator self file_info
             (print w (''Processing '' @ info_service_name file_info @ ''...'')) of
        (Inl e, w') \<Rightarrow> print w' (''  Error processing '' @ info_service_name file_info @ '': ''
                                  @ exception_str U e)
      | (Inr u, w') \<Rightarrow> w')"

definition generate_all ::
    "unicode_tables \<Rightarrow> (string \<Rightarrow> exception + 'schema sql_generator) \<Rightarrow>
     ('spec, 'schema) OpenApiSqlGenerator \<Rightarrow>
     world \<Rightarrow> (exception + unit) \<times> world" where
  "generate_all U SqlGenerator self w =
     (case find_openapi_files (gen_processor self) (w_fs w) of
        Inl e \<Rightarrow> (Inl e, w)
      | Inr openapi_files \<Rightarrow>
          if openapi_files = []
          then (Inr (), print w ''No OpenAPI files found in build/smithy directory'')
          else (Inr (), print (foldl (process_service U SqlGenerator self)
                                 (print w (''Found '' @ show_nat (length openapi_files)
                                           @ '' OpenAPI files''))
                                 openapi_files)
                          ''SQL generation completed!''))"

section \<open>Command line entry (pygenerate-sql-from-openapi.py)\<close>

definition py_type_name :: "pyval \<Rightarrow> string" where
  "py_type_name v =
     (case v of PNone \<Rightarrow> ''NoneType'' | PBool x \<Rightarrow> ''bool'' | PInt i \<Rightarrow> ''int''
      | PStr s \<Rightarrow> ''str'' | PList xs \<Rightarrow> ''list'' | PDict kvs \<Rightarrow> ''dict'')"

definition no_attribute :: "pyval \<Rightarrow> string \<Rightarrow> exception" where
  "no_attribute v name =
     AttributeError ([CHR 0x27] @ py_type_name v @ [CHR 0x27] @ '' object has no attribute ''
                     @ [CHR 0x27] @ name @ [CHR 0x27])"

text \<open>
  \<^verbatim>\<open>v[0]\<close>; the first character of a string is its first byte and the continuation
  bytes that follow it.
\<close>

fun py_first :: "pyval \<Rightarrow> exception + pyval" where
  "py_first (PList []) = Inl (IndexError ''list index out of range'')"
| "py_first (PList (x # xs)) = Inr x"
| "py_first (PStr []) = Inl (IndexError ''string index out of range'')"
| "py_first (PStr (c # cs)) =
     Inr (PStr (c # takeWhile (\<lambda>b. (128::nat) \<le> of_char b \<and> of_char b < (192::nat)) cs))"
| "py_first (PDict kvs) = Inl (KeyError ''0'')"
| "py_first v = Inl (TypeError ([CHR 0x27] @ py_type_name v @ [CHR 0x27]
                                   @ '' object is not subscriptable''))"

text \<open>\<^verbatim>\<open>v.get(k, default)\<close> on a value that may not be a dictionary.\<close>

definition py_get :: "pyval \<Rightarrow> string \<Rightarrow> pyval \<Rightarrow> exception + pyval" where
  "py_get v k dflt =
     (case v of
        PDict kvs \<Rightarrow> Inr (case map_of kvs k of None \<Rightarrow> dflt | Some x \<Rightarrow> x)
      | _ \<Rightarrow> Inl (no_attribute v ''get''))"

text \<open>\<^verbatim>\<open>v.upper()\<close>\<close>

definition py_upper :: "unicode_tables \<Rightarrow> pyval \<Rightarrow> exception + string" where
  "py_upper U v =
     (case v of PStr s \<Rightarrow> Inr (upper U s) | _ \<Rightarrow> Inl (no_attribute v ''upper''))"

text \<open>\<^verbatim>\<open>open(p, 'r')\<close> and reading the whole file.\<close>

definition read_text :: "filesystem \<Rightarrow> path \<Rightarrow> exception + string" where
  "read_text fs p =
     (case path_error fs p of
        Some e \<Rightarrow> Inl e
      | None \<Rightarrow>
          if is_dir fs p then Inl (IsADirectoryError (path_str p))
          else (case files fs p of
                  None \<Rightarrow> Inl (FileNotFoundError (path_str p))
                | Some content \<Rightarrow> Inr content))"

text \<open>The JSON parser is the parameter \<open>json_load\<close>.\<close>

definition load_config ::
    "(string \<Rightarrow> exception + pyval) \<Rightarrow> filesystem \<Rightarrow> path \<Rightarrow> exception + pyval" where
  "load_config json_load fs config_path =
     (case read_text fs config_path of Inl e \<Rightarrow> Inl e | Inr content \<Rightarrow> json_load content)"

definition get_database_dialect :: "pyval \<Rightarrow> exception + pyval" where
  "get_database_dialect projects_config =
     (if \<not> truthy projects_config then Inr (PStr ''postgresql'')
      else (case py_first projects_config of
              Inl e \<Rightarrow> Inl e
            | Inr first_project \<Rightarrow>
                (case py_get first_project ''database'' (PDict []) of
                   Inl e \<Rightarrow> Inl e
                 | Inr database_config \<Rightarrow> py_get database_config ''sgbd'' (PStr ''postgresql''))))"

text \<open>The body of the \<^verbatim>\<open>try\<close> of \<^verbatim>\<open>main\<close>.\<close>

definition main_try ::
    "unicode_tables \<Rightarrow> (string \<Rightarrow> exception + pyval) \<Rightarrow>
     (string \<Rightarrow> filesystem \<Rightarrow> (exception + ('spec, 'schema) processor) \<times> filesystem) \<Rightarrow>
     (string \<Rightarrow> exception + 'schema sql_generator) \<Rightarrow>
     path \<Rightarrow> path \<Rightarrow> world \<Rightarrow> (exception + unit) \<times> world" where
  "main_try U json_load OpenApiProcessor SqlGenerator project_root config_path w =
     (case load_config json_load (w_fs w) config_path of
        Inl e \<Rightarrow> (Inl e, w)
      | Inr projects_config \<Rightarrow>
          (case get_database_dialect projects_config of
             Inl e \<Rightarrow> (Inl e, w)
           | Inr dialect \<Rightarrow>
               (case py_upper U dialect of
                  Inl e \<Rightarrow> (Inl e, w)
                | Inr dialect_upper \<Rightarrow>
                    (let w1 = print w ([CHR 0xF0, CHR 0x9F, CHR 0x97, CHR 0x84, CHR 0xEF, CHR 0xB8,
                                        CHR 0x8F] @ ''  Generating SQL DDL scripts for ''
                                       @ dialect_upper @ ''...'');
                         build_dir = joinpath (joinpath project_root ''build'') ''smithy'';
                         output_dir = joinpath project_root ''sql''
                     in case OpenApiSqlGenerator_init U OpenApiProcessor (path_str build_dir)
                               (path_str output_dir) (py_str U dialect) (w_fs w1) of
                          (Inl e, fs') \<Rightarrow> (Inl e, w1\<lparr>w_fs := fs'\<rparr>)
                        | (Inr generator, fs') \<Rightarrow>
                            (case generate_all U SqlGenerator generator
                                    (w1\<lparr>w_fs := fs'\<rparr>) of
                               (Inl e, w2) \<Rightarrow> (Inl e, w2)
                             | (Inr u, w2) \<Rightarrow>
                                 (Inr (), print w2 ([CHR 0xE2, CHR 0x9C, CHR 0x85]
                                                    @ '' SQL generation complete for ''
                                                    @ dialect_upper)))))))"

text \<open>
  \<^verbatim>\<open>main()\<close>, run as the script: the exit status of the process and the world it
  leaves. \<open>project_root\<close> is the directory above the script's own. An error that
  \<^verbatim>\<open>exists()\<close> raises is caught by nothing: the interpreter ends with status 1,
  its report going to the standard error stream.
\<close>

definition main ::
    "unicode_tables \<Rightarrow> (string \<Rightarrow> exception + pyval) \<Rightarrow>
     (string \<Rightarrow> filesystem \<Rightarrow> (exception + ('spec, 'schema) processor) \<times> filesystem) \<Rightarrow>
     (string \<Rightarrow> exception + 'schema sql_generator) \<Rightarrow>
     path \<Rightarrow> world \<Rightarrow> nat \<times> world" where
  "main U json_load OpenApiProcessor SqlGenerator project_root w =
     (let config_path = joinpath (joinpath (joinpath project_root ''libs'') ''config'')
                          ''params.json''
      in case path_exists (w_fs w) config_path of
           Inl e \<Rightarrow> (1, w)
         | Inr False \<Rightarrow>
             (0, print w ([CHR 0xE2, CHR 0x9D, CHR 0x8C] @ '' Configuration file not found: ''
                          @ path_str config_path))
         | Inr True \<Rightarrow>
             (case main_try U json_load OpenApiProcessor SqlGenerator project_root
                     config_path w of
                (Inl e, w') \<Rightarrow> (1, print w' ([CHR 0xE2, CHR 0x9D, CHR 0x8C]
                                             @ '' Error generating SQL: '' @ exception_str U e))
              | (Inr u, w') \<Rightarrow> (0, w')))"

section \<open>A small run, used to instantiate the theorems\<close>

text \<open>Tables that leave every text as it is; the run holds ASCII text only.\<close>

definition example_tables :: unicode_tables where
  "example_tables = \<lparr>uni_upper = (\<lambda>s. s), uni_repr = (\<lambda>s. s)\<rparr>"

definition empty_tree :: filesystem where
  "empty_tree = \<lparr>files = Map.empty, dirs = {}\<rparr>"

text \<open>
  Two services: the document of \<^verbatim>\<open>orders\<close> does not parse, the one of
  \<^verbatim>\<open>users\<close> holds one schema.
\<close>

definition example_processor :: "(string, unit) processor" where
  "example_processor =
     \<lparr>find_openapi_files = (\<lambda>fs.
          Inr [\<lparr>info_service_name = ''orders'', info_file_path = ''build/smithy/orders.json''\<rparr>,
               \<lparr>info_service_name = ''users'', info_file_path = ''build/smithy/users.json''\<rparr>]),
       load_openapi_spec = (\<lambda>fs p.
          if p = ''build/smithy/orders.json'' then Inl (OtherError ''Expecting value'')
          else Inr p),
       extract_response_schemas = (\<lambda>spec. Inr [(''user_response'', ())])\<rparr>"

definition example_OpenApiProcessor ::
    "string \<Rightarrow> filesystem \<Rightarrow> (exception + (string, unit) processor) \<times> filesystem" where
  "example_OpenApiProcessor build_dir fs = (Inr example_processor, fs)"

definition example_sql_generator :: "string \<Rightarrow> exception + unit sql_generator" where
  "example_sql_generator dialect =
     Inr \<lparr>generate_create_table = (\<lambda>table_name schema_def.
              Inr (Some (''CREATE TABLE '' @ table_name @ '' (id INT);''))),
          generate_indexes = (\<lambda>table_name schema_def. Inr [])\<rparr>"

definition example_tree :: filesystem where
  "example_tree =
     \<lparr>files = Map.empty, dirs = {PurePath [] [''sql''], PurePath [] [''sql'', ''mysql'']}\<rparr>"

definition example_writer :: FileWriter where
  "example_writer = \<lparr>fw_output_dir = PurePath [] [''sql'', ''mysql''], fw_dialect = ''mysql''\<rparr>"


text \<open>A tree in which \<^verbatim>\<open>sql\<close> is a regular file.\<close>

definition blocked_tree :: filesystem where
  "blocked_tree = \<lparr>files = [PurePath [] [''sql''] \<mapsto> ''notes''], dirs = {}\<rparr>"

text \<open>A configuration that selects the dialect \<^verbatim>\<open>db2\<close>, and its parsed form.\<close>

definition example_config_text :: string where
  "example_config_text =
     ''[{'' @ [CHR 0x22] @ ''database'' @ [CHR 0x22] @ '': {'' @ [CHR 0x22] @ ''sgbd''
     @ [CHR 0x22] @ '': '' @ [CHR 0x22] @ ''db2'' @ [CHR 0x22] @ ''}}]''"

definition config_tree :: filesystem where
  "config_tree =
     \<lparr>files = [PurePath ''/'' [''repo'', ''libs'', ''config'', ''params.json'']
                 \<mapsto> example_config_text],
      dirs = {PurePath ''/'' [''repo''], PurePath ''/'' [''repo'', ''libs''],
              PurePath ''/'' [''repo'', ''libs'', ''config'']}\<rparr>"

definition example_json_load :: "string \<Rightarrow> exception + pyval" where
  "example_json_load content =
     (if content = example_config_text
      then Inr (PList [PDict [(''database'', PDict [(''sgbd'', PStr ''db2'')])]])
      else Inl (OtherError ''Expecting value''))"

section \<open>Properties of the type mapper\<close>

lemmas text_defs = repr_str_def ascii_repr_def repr_char_def is_ascii_def

lemmas type_mapper_defs =
  get_sql_type_def TYPE_MAPPING_def json_type_of_def json_format_of_def type_key_of_def
  dict_get_def py_str_def

lemmas dialect_map_defs = postgresql_map_def mysql_map_def sqlserver_map_def oracle_map_def

lemma TYPE_MAPPING_cases:
  assumes "TYPE_MAPPING d = Some m"
  shows "(d = ''postgresql'' \<and> m = postgresql_map) \<or> (d = ''mysql'' \<and> m = mysql_map)
       \<or> (d = ''sqlserver'' \<and> m = sqlserver_map) \<or> (d = ''oracle'' \<and> m = oracle_map)"
  using assms by (simp add: TYPE_MAPPING_def split: if_splits)

lemma TYPE_MAPPING_dom: "(TYPE_MAPPING d \<noteq> None) = (d \<in> set supported_dialects)"
  by (simp add: TYPE_MAPPING_def supported_dialects_def)

lemma uuid_pk_present: "TYPE_MAPPING d = Some m \<Longrightarrow> m ''uuid_pk'' \<noteq> None"
  by (drule TYPE_MAPPING_cases) (auto simp: dialect_map_defs)

lemma py_in_getitem: "py_in v m = Inr True \<Longrightarrow> \<exists>s. py_getitem U m v = Inr s"
  by (cases v) auto

lemma py_in_True: "py_in v m = Inr True \<Longrightarrow> \<exists>k x. v = PStr k \<and> m k = Some x"
  by (cases v) auto

lemma py_in_hashable: "hashable v \<Longrightarrow> \<exists>found. py_in v m = Inr found"
  by (cases v) (auto simp: hashable_def)

lemma type_key_hashable: "hashable (json_type_of prop) \<Longrightarrow> hashable (type_key_of U prop)"
  by (simp add: type_key_of_def hashable_def)

lemma json_type_of_restrict:
  "json_type_of (prop |` {''type'', ''format''}) = json_type_of prop"
  by (simp add: json_type_of_def dict_get_def)

lemma json_format_of_restrict:
  "json_format_of (prop |` {''type'', ''format''}) = json_format_of prop"
  by (simp add: json_format_of_def dict_get_def)

lemma type_key_of_restrict:
  "type_key_of U (prop |` {''type'', ''format''}) = type_key_of U prop"
  by (simp add: type_key_of_def json_type_of_restrict json_format_of_restrict)

lemma get_sql_type_restrict:
  "get_sql_type U (prop |` {''type'', ''format''}) d = get_sql_type U prop d"
  unfolding get_sql_type_def json_type_of_restrict type_key_of_restrict ..

text \<open>
  For sqlserver too the fallback is not the table's entry for \<^verbatim>\<open>string\<close>.
\<close>

lemma sqlserver_fallback_not_dialect_string:
  "py_getitem U sqlserver_map (PStr ''string'') = Inr ''NVARCHAR(255)''
   \<and> get_sql_type U [''type'' \<mapsto> PStr ''object''] ''sqlserver'' = Inr ''VARCHAR(255)''"
  by (simp add: type_mapper_defs sqlserver_map_def)

text \<open>
  Outside the four dialects the lookup of the table raises \<^verbatim>\<open>KeyError\<close>, and in a
  supported dialect a type that is a list or a dictionary raises \<^verbatim>\<open>TypeError\<close>.
\<close>

lemma get_sql_type_unsupported_dialect:
  "dialect \<notin> set supported_dialects \<Longrightarrow>
   get_sql_type U prop dialect = Inl (KeyError (repr_str U dialect))"
  using TYPE_MAPPING_dom [of dialect]
  by (simp add: get_sql_type_def)

lemma bracket_not_a_key:
  assumes "TYPE_MAPPING d = Some m" and "c = CHR ''['' \<or> c = CHR ''{''"
  shows "m (c # rest) = None"
  using TYPE_MAPPING_cases [OF assms(1)] assms(2)
  by (elim disjE conjE) (simp_all add: dialect_map_defs)

lemma get_sql_type_unhashable_type:
  assumes d: "dialect \<in> set supported_dialects"
    and t: "\<not> hashable (json_type_of prop)"
  shows "\<exists>msg. get_sql_type U prop dialect = Inl (TypeError msg)"
proof -
  from d obtain m where m: "TYPE_MAPPING dialect = Some m"
    using TYPE_MAPPING_dom [of dialect] by auto
  from t have no_pk: "json_type_of prop \<noteq> PStr ''uuid_pk''"
    by (auto simp: hashable_def)
  from t obtain msg where bare: "py_in (json_type_of prop) m = Inl (TypeError msg)"
    by (cases "json_type_of prop") (auto simp: hashable_def)
  show ?thesis
  proof (cases "truthy (json_format_of prop)")
    case False
    then have "type_key_of U prop = json_type_of prop"
      by (simp add: type_key_of_def)
    with m no_pk bare show ?thesis
      by (simp add: get_sql_type_def)
  next
    case True
    from t obtain c rest where "py_str U (json_type_of prop) = c # rest"
        "c = CHR ''['' \<or> c = CHR ''{''"
      by (cases "json_type_of prop") (auto simp: hashable_def py_str_def)
    with True bracket_not_a_key [OF m]
    have "py_in (type_key_of U prop) m = Inr False"
      by (auto simp: type_key_of_def)
    with m no_pk bare show ?thesis
      by (simp add: get_sql_type_def)
  qed
qed

text \<open>
  C1, as the claim states it, fails: for oracle a descriptor of type \<^verbatim>\<open>object\<close> has
  neither its key nor its type in the table, the table maps \<^verbatim>\<open>string\<close> to
  \<^verbatim>\<open>VARCHAR2(255)\<close>, and \<^verbatim>\<open>get_sql_type\<close> returns \<^verbatim>\<open>VARCHAR(255)\<close>.
\<close>

theorem get_sql_type_fallback_not_dialect_string:
  "py_in (type_key_of example_tables [''type'' \<mapsto> PStr ''object'']) oracle_map = Inr False
   \<and> py_in (json_type_of [''type'' \<mapsto> PStr ''object'']) oracle_map = Inr False
   \<and> TYPE_MAPPING ''oracle'' = Some oracle_map
   \<and> py_getitem example_tables oracle_map (PStr ''string'') = Inr ''VARCHAR2(255)''
   \<and> get_sql_type example_tables [''type'' \<mapsto> PStr ''object''] ''oracle''
       = Inr ''VARCHAR(255)''
   \<and> get_sql_type example_tables [''type'' \<mapsto> PStr ''object''] ''oracle''
       \<noteq> Inr ''VARCHAR2(255)''"
  by (simp add: type_mapper_defs oracle_map_def)

text \<open>
  C1, amended: for every supported dialect and every descriptor whose lookup key and whose
  bare type are both absent from the dialect's table, \<^verbatim>\<open>get_sql_type\<close> returns the
  literal \<^verbatim>\<open>VARCHAR(255)\<close>, whatever the dialect; that literal is the dialect's own
  entry for \<^verbatim>\<open>string\<close> in postgresql and mysql.
\<close>

theorem get_sql_type_fallback:
  assumes "TYPE_MAPPING dialect = Some dialect_map"
    and "py_in (type_key_of U prop) dialect_map = Inr False"
    and "py_in (json_type_of prop) dialect_map = Inr False"
  shows "get_sql_type U prop dialect = Inr ''VARCHAR(255)''
         \<and> (dialect = ''postgresql'' \<or> dialect = ''mysql''
              \<longrightarrow> py_getitem U dialect_map (PStr ''string'') = Inr ''VARCHAR(255)'')"
proof
  show "get_sql_type U prop dialect = Inr ''VARCHAR(255)''"
    using assms uuid_pk_present [of dialect dialect_map]
    by (auto simp add: get_sql_type_def)
next
  show "dialect = ''postgresql'' \<or> dialect = ''mysql''
        \<longrightarrow> py_getitem U dialect_map (PStr ''string'') = Inr ''VARCHAR(255)''"
    using TYPE_MAPPING_cases [OF assms(1)] by (auto simp: dialect_map_defs)
qed

theorem get_sql_type_fallback_witness:
  "TYPE_MAPPING ''mysql'' = Some mysql_map
   \<and> py_in (type_key_of example_tables
              [''type'' \<mapsto> PStr ''object'', ''format'' \<mapsto> PStr ''binary'']) mysql_map
       = Inr False
   \<and> py_in (json_type_of [''type'' \<mapsto> PStr ''object'', ''format'' \<mapsto> PStr ''binary'']) mysql_map
       = Inr False
   \<and> get_sql_type example_tables
        [''type'' \<mapsto> PStr ''object'', ''format'' \<mapsto> PStr ''binary''] ''mysql''
       = Inr ''VARCHAR(255)''
   \<and> py_getitem example_tables mysql_map (PStr ''string'') = Inr ''VARCHAR(255)''"
proof -
  have h1: "TYPE_MAPPING ''mysql'' = Some mysql_map"
    by (simp add: TYPE_MAPPING_def)
  have h2: "py_in (type_key_of example_tables
                     [''type'' \<mapsto> PStr ''object'', ''format'' \<mapsto> PStr ''binary''])
              mysql_map = Inr False"
    by (simp add: type_mapper_defs mysql_map_def)
  have h3: "py_in (json_type_of [''type'' \<mapsto> PStr ''object'', ''format'' \<mapsto> PStr ''binary''])
              mysql_map = Inr False"
    by (simp add: type_mapper_defs mysql_map_def)
  from get_sql_type_fallback [OF h1 h2 h3] h1 h2 h3 show ?thesis
    by blast
qed

text \<open>
  C4, as the claim states it, fails: with a dialect outside the four the lookup of the
  dialect's table raises \<^verbatim>\<open>KeyError\<close>, and a descriptor whose type is a list raises
  \<^verbatim>\<open>TypeError\<close> in a supported dialect.
\<close>

theorem get_sql_type_raises:
  "get_sql_type example_tables [''type'' \<mapsto> PStr ''string''] ''db2''
     = Inl (KeyError ([CHR 0x27] @ ''db2'' @ [CHR 0x27]))
   \<and> get_sql_type example_tables [''type'' \<mapsto> PList [PStr ''string'', PStr ''null'']]
       ''postgresql''
     = Inl (TypeError (''unhashable type: 'list'' @ [CHR 0x27]))"
  by (simp add: type_mapper_defs text_defs postgresql_map_def Let_def)

text \<open>
  C4, amended: for every supported dialect and every descriptor whose type is missing or
  is not a list or a dictionary (whatever its format and its other keys),
  \<^verbatim>\<open>get_sql_type\<close> returns a string and does not fail. It is a function of the
  descriptor and the dialect alone.
\<close>

theorem get_sql_type_total:
  assumes d: "dialect \<in> set supported_dialects"
    and h: "hashable (json_type_of prop)"
  shows "\<exists>s. get_sql_type U prop dialect = Inr s"
proof -
  from d obtain m where m: "TYPE_MAPPING dialect = Some m"
    using TYPE_MAPPING_dom [of dialect] by auto
  from uuid_pk_present [OF m] obtain pk where pk: "m ''uuid_pk'' = Some pk"
    by auto
  obtain b1 where b1: "py_in (type_key_of U prop) m = Inr b1"
    using py_in_hashable [OF type_key_hashable [OF h]] by blast
  obtain b2 where b2: "py_in (json_type_of prop) m = Inr b2"
    using py_in_hashable [OF h] by blast
  show ?thesis
  proof (cases "json_type_of prop = PStr ''uuid_pk''")
    case True
    then show ?thesis
      using m pk by (simp add: get_sql_type_def)
  next
    case no_pk: False
    show ?thesis
    proof (cases b1)
      case True
      with b1 py_in_getitem [of "type_key_of U prop" m U]
      obtain s where "py_getitem U m (type_key_of U prop) = Inr s"
        by auto
      then show ?thesis
        using m no_pk b1 True by (simp add: get_sql_type_def)
    next
      case no_key: False
      show ?thesis
      proof (cases b2)
        case True
        with b2 py_in_getitem [of "json_type_of prop" m U]
        obtain s where "py_getitem U m (json_type_of prop) = Inr s"
          by auto
        then show ?thesis
          using m no_pk b1 no_key b2 True by (simp add: get_sql_type_def)
      next
        case False
        then show ?thesis
          using m no_pk b1 no_key b2 by (simp add: get_sql_type_def)
      qed
    qed
  qed
qed

theorem get_sql_type_total_witness:
  "''sqlserver'' \<in> set supported_dialects
   \<and> hashable (json_type_of [''format'' \<mapsto> PStr ''int64''])
   \<and> (\<exists>s. get_sql_type example_tables [''format'' \<mapsto> PStr ''int64''] ''sqlserver'' = Inr s)"
proof -
  have h1: "''sqlserver'' \<in> set supported_dialects"
    by (simp add: supported_dialects_def)
  have h2: "hashable (json_type_of [''format'' \<mapsto> PStr ''int64''])"
    by (simp add: json_type_of_def dict_get_def hashable_def)
  from get_sql_type_total [OF h1 h2] h1 h2 show ?thesis
    by blast
qed

text \<open>
  C9: for oracle, a descriptor marked as the generated primary key (its type is
  \<^verbatim>\<open>uuid_pk\<close>) resolves to \<^verbatim>\<open>RAW(16) DEFAULT SYS_GUID() PRIMARY KEY\<close>, and a
  descriptor of type \<^verbatim>\<open>string\<close> and format \<^verbatim>\<open>date-time\<close> to \<^verbatim>\<open>TIMESTAMP\<close>,
  whatever else the descriptor holds.
\<close>

theorem oracle_primary_key_and_timestamp:
  "get_sql_type U (prop(''type'' \<mapsto> PStr ''uuid_pk'')) ''oracle''
     = Inr ''RAW(16) DEFAULT SYS_GUID() PRIMARY KEY''
   \<and> get_sql_type U (prop(''type'' \<mapsto> PStr ''string'', ''format'' \<mapsto> PStr ''date-time''))
       ''oracle''
     = Inr ''TIMESTAMP''"
  by (simp add: type_mapper_defs oracle_map_def)

text \<open>In every table the primary-key fragment is the value of the key \<^verbatim>\<open>uuid_pk\<close> only.\<close>

lemma uuid_pk_unique:
  assumes "TYPE_MAPPING d = Some m" and "m k = m ''uuid_pk''"
  shows "k = ''uuid_pk''"
  using TYPE_MAPPING_cases [OF assms(1)] assms(2)
  by (elim disjE conjE) (simp_all add: dialect_map_defs split: if_splits)

lemma default_is_not_uuid_pk:
  assumes "TYPE_MAPPING d = Some m"
  shows "m ''uuid_pk'' \<noteq> Some ''VARCHAR(255)''"
  using TYPE_MAPPING_cases [OF assms]
  by (elim disjE conjE) (simp_all add: dialect_map_defs)

lemma primary_key_fragment_iff:
  assumes m: "TYPE_MAPPING dialect = Some dialect_map"
  shows "(get_sql_type U prop dialect = py_getitem U dialect_map (PStr ''uuid_pk''))
         = (json_type_of prop = PStr ''uuid_pk'' \<or> type_key_of U prop = PStr ''uuid_pk'')"
proof -
  from uuid_pk_present [OF m] obtain pk where pk: "dialect_map ''uuid_pk'' = Some pk"
    by auto
  have g: "py_getitem U dialect_map (PStr ''uuid_pk'') = Inr pk"
    using pk by simp
  show ?thesis
  proof (cases "json_type_of prop = PStr ''uuid_pk''")
    case True
    then show ?thesis
      using m by (simp add: get_sql_type_def)
  next
    case no_pk: False
    show ?thesis
    proof (cases "py_in (type_key_of U prop) dialect_map")
      case (Inl e)
      then have "type_key_of U prop \<noteq> PStr ''uuid_pk''"
        by auto
      with Inl m no_pk g show ?thesis
        by (simp add: get_sql_type_def)
    next
      case (Inr found)
      show ?thesis
      proof (cases found)
        case True
        with Inr py_in_True [of "type_key_of U prop" dialect_map]
        obtain k x where k: "type_key_of U prop = PStr k" "dialect_map k = Some x"
          by auto
        have "(x = pk) = (k = ''uuid_pk'')"
          using uuid_pk_unique [OF m, of k] k(2) pk by auto
        with Inr True m no_pk g k show ?thesis
          by (simp add: get_sql_type_def)
      next
        case not_found: False
        with Inr pk have no_key: "type_key_of U prop \<noteq> PStr ''uuid_pk''"
          by auto
        show ?thesis
        proof (cases "py_in (json_type_of prop) dialect_map")
          case (Inl e)
          with Inr not_found m no_pk g no_key show ?thesis
            by (simp add: get_sql_type_def)
        next
          case found2: (Inr found')
          show ?thesis
          proof (cases found')
            case True
            with found2 py_in_True [of "json_type_of prop" dialect_map]
            obtain k x where k: "json_type_of prop = PStr k" "dialect_map k = Some x"
              by auto
            have "x \<noteq> pk"
              using uuid_pk_unique [OF m, of k] k no_pk pk by auto
            with Inr not_found found2 True m no_pk g no_key k show ?thesis
              by (simp add: get_sql_type_def)
          next
            case False
            with Inr not_found found2 m no_pk g no_key default_is_not_uuid_pk [OF m] pk
            show ?thesis
              by (auto simp add: get_sql_type_def)
          qed
        qed
      qed
    qed
  qed
qed

lemma string_uuid_key:
  "json_type_of (prop(''type'' \<mapsto> PStr ''string'', ''format'' \<mapsto> PStr ''uuid''))
   = PStr ''string''"
  "type_key_of U (prop(''type'' \<mapsto> PStr ''string'', ''format'' \<mapsto> PStr ''uuid''))
   = PStr ''string_uuid''"
  by (simp_all add: json_type_of_def json_format_of_def type_key_of_def dict_get_def py_str_def)

text \<open>
  C10, as the claim states it, fails in its last part: a descriptor whose type is
  \<^verbatim>\<open>uuid\<close>, not \<^verbatim>\<open>uuid_pk\<close>, and whose format is \<^verbatim>\<open>pk\<close> has the lookup key
  \<^verbatim>\<open>uuid_pk\<close>, and \<^verbatim>\<open>get_sql_type\<close> returns the primary-key fragment for it.
\<close>

theorem uuid_with_format_pk_is_primary_key:
  "json_type_of [''type'' \<mapsto> PStr ''uuid'', ''format'' \<mapsto> PStr ''pk''] \<noteq> PStr ''uuid_pk''
   \<and> get_sql_type example_tables [''type'' \<mapsto> PStr ''uuid'', ''format'' \<mapsto> PStr ''pk'']
        ''postgresql''
       = Inr ''UUID DEFAULT gen_random_uuid() PRIMARY KEY''
   \<and> get_sql_type example_tables [''type'' \<mapsto> PStr ''uuid'', ''format'' \<mapsto> PStr ''pk'']
        ''oracle''
       = Inr ''RAW(16) DEFAULT SYS_GUID() PRIMARY KEY''
   \<and> get_sql_type example_tables [''type'' \<mapsto> PStr ''uuid_pk''] ''oracle''
       = Inr ''RAW(16) DEFAULT SYS_GUID() PRIMARY KEY''"
  by (simp add: type_mapper_defs postgresql_map_def oracle_map_def)

text \<open>
  C10, amended: in each of the four dialects a descriptor of type \<^verbatim>\<open>string\<close> and
  format \<^verbatim>\<open>uuid\<close> resolves to the dialect's \<^verbatim>\<open>string_uuid\<close> entry, whatever else
  the descriptor holds (an \<^verbatim>\<open>isPrimaryKey\<close> flag for one), and that entry is not the
  dialect's primary-key fragment; the result of \<^verbatim>\<open>get_sql_type\<close> depends on the
  keys \<^verbatim>\<open>type\<close> and \<^verbatim>\<open>format\<close> of the descriptor only; and in a supported
  dialect \<^verbatim>\<open>get_sql_type\<close> returns the primary-key fragment exactly when the type
  is the literal \<^verbatim>\<open>uuid_pk\<close> or the computed lookup key is \<^verbatim>\<open>uuid_pk\<close> (which
  type \<^verbatim>\<open>uuid\<close> with format \<^verbatim>\<open>pk\<close> gives).
\<close>

theorem string_uuid_is_not_primary_key:
  "get_sql_type U (prop(''type'' \<mapsto> PStr ''string'', ''format'' \<mapsto> PStr ''uuid'')) ''postgresql''
     = Inr ''VARCHAR(36)''
   \<and> get_sql_type U (prop(''type'' \<mapsto> PStr ''string'', ''format'' \<mapsto> PStr ''uuid'')) ''mysql''
     = Inr ''VARCHAR(36)''
   \<and> get_sql_type U (prop(''type'' \<mapsto> PStr ''string'', ''format'' \<mapsto> PStr ''uuid'')) ''sqlserver''
     = Inr ''UNIQUEIDENTIFIER''
   \<and> get_sql_type U (prop(''type'' \<mapsto> PStr ''string'', ''format'' \<mapsto> PStr ''uuid'')) ''oracle''
     = Inr ''VARCHAR2(36)''
   \<and> py_getitem U postgresql_map (PStr ''uuid_pk'') \<noteq> Inr ''VARCHAR(36)''
   \<and> py_getitem U mysql_map (PStr ''uuid_pk'') \<noteq> Inr ''VARCHAR(36)''
   \<and> py_getitem U sqlserver_map (PStr ''uuid_pk'') \<noteq> Inr ''UNIQUEIDENTIFIER''
   \<and> py_getitem U oracle_map (PStr ''uuid_pk'') \<noteq> Inr ''VARCHAR2(36)''
   \<and> get_sql_type U [''type'' \<mapsto> PStr ''string'', ''format'' \<mapsto> PStr ''uuid'',
                      ''isPrimaryKey'' \<mapsto> PBool True] ''postgresql''
     = Inr ''VARCHAR(36)''
   \<and> get_sql_type U prop dialect = get_sql_type U (prop |` {''type'', ''format''}) dialect
   \<and> (TYPE_MAPPING dialect = Some dialect_map \<longrightarrow>
        (get_sql_type U prop dialect = py_getitem U dialect_map (PStr ''uuid_pk''))
        = (json_type_of prop = PStr ''uuid_pk'' \<or> type_key_of U prop = PStr ''uuid_pk''))"
proof -
  let ?p = "prop(''type'' \<mapsto> PStr ''string'', ''format'' \<mapsto> PStr ''uuid'')"
  have pg: "get_sql_type U ?p ''postgresql'' = Inr ''VARCHAR(36)''"
    unfolding get_sql_type_def string_uuid_key
    by (simp add: TYPE_MAPPING_def postgresql_map_def)
  have my: "get_sql_type U ?p ''mysql'' = Inr ''VARCHAR(36)''"
    unfolding get_sql_type_def string_uuid_key
    by (simp add: TYPE_MAPPING_def mysql_map_def)
  have ms: "get_sql_type U ?p ''sqlserver'' = Inr ''UNIQUEIDENTIFIER''"
    unfolding get_sql_type_def string_uuid_key
    by (simp add: TYPE_MAPPING_def sqlserver_map_def)
  have ora: "get_sql_type U ?p ''oracle'' = Inr ''VARCHAR2(36)''"
    unfolding get_sql_type_def string_uuid_key
    by (simp add: TYPE_MAPPING_def oracle_map_def)
  have pk: "py_getitem U postgresql_map (PStr ''uuid_pk'') \<noteq> Inr ''VARCHAR(36)''"
    "py_getitem U mysql_map (PStr ''uuid_pk'') \<noteq> Inr ''VARCHAR(36)''"
    "py_getitem U sqlserver_map (PStr ''uuid_pk'') \<noteq> Inr ''UNIQUEIDENTIFIER''"
    "py_getitem U oracle_map (PStr ''uuid_pk'') \<noteq> Inr ''VARCHAR2(36)''"
    by (simp_all add: dialect_map_defs)
  have flag: "get_sql_type U [''type'' \<mapsto> PStr ''string'', ''format'' \<mapsto> PStr ''uuid'',
                    ''isPrimaryKey'' \<mapsto> PBool True] ''postgresql'' = Inr ''VARCHAR(36)''"
    by (simp add: type_mapper_defs postgresql_map_def)
  have only: "get_sql_type U prop dialect
              = get_sql_type U (prop |` {''type'', ''format''}) dialect"
    by (rule get_sql_type_restrict [symmetric])
  have frag: "TYPE_MAPPING dialect = Some dialect_map \<longrightarrow>
        (get_sql_type U prop dialect = py_getitem U dialect_map (PStr ''uuid_pk''))
        = (json_type_of prop = PStr ''uuid_pk'' \<or> type_key_of U prop = PStr ''uuid_pk'')"
    using primary_key_fragment_iff by blast
  from pg my ms ora pk flag only frag show ?thesis
    by blast
qed

theorem string_uuid_is_not_primary_key_witness:
  "TYPE_MAPPING ''oracle'' = Some oracle_map
   \<and> get_sql_type example_tables [''type'' \<mapsto> PStr ''string'', ''format'' \<mapsto> PStr ''uuid'']
        ''oracle''
       \<noteq> py_getitem example_tables oracle_map (PStr ''uuid_pk'')
   \<and> json_type_of [''type'' \<mapsto> PStr ''string'', ''format'' \<mapsto> PStr ''uuid''] \<noteq> PStr ''uuid_pk''
   \<and> type_key_of example_tables [''type'' \<mapsto> PStr ''string'', ''format'' \<mapsto> PStr ''uuid'']
       \<noteq> PStr ''uuid_pk''"
proof -
  have h: "TYPE_MAPPING ''oracle'' = Some oracle_map"
    by (simp add: TYPE_MAPPING_def)
  have t: "json_type_of [''type'' \<mapsto> PStr ''string'', ''format'' \<mapsto> PStr ''uuid'']
           \<noteq> PStr ''uuid_pk''"
    by (simp add: json_type_of_def dict_get_def)
  have k: "type_key_of example_tables [''type'' \<mapsto> PStr ''string'', ''format'' \<mapsto> PStr ''uuid'']
           \<noteq> PStr ''uuid_pk''"
    by (simp add: type_mapper_defs)
  note inst = string_uuid_is_not_primary_key
    [of example_tables "[''type'' \<mapsto> PStr ''string'', ''format'' \<mapsto> PStr ''uuid'']"
       "''oracle''" oracle_map]
  from inst h t k
  have "get_sql_type example_tables [''type'' \<mapsto> PStr ''string'', ''format'' \<mapsto> PStr ''uuid'']
          ''oracle''
        \<noteq> py_getitem example_tables oracle_map (PStr ''uuid_pk'')"
    by blast
  with h t k show ?thesis
    by blast
qed

section \<open>Properties of the file writer\<close>

lemmas path_defs = joinpath_def Path_def root_of_def path_str_def parent_def

lemmas tree_defs =
  os_mkdir_def walk_parent_def path_error_def path_exists_def path_is_dir_def is_dir_def
  is_file_def is_os_error_def mkdir_exist_ok_def write_text_def writable_def NAME_MAX_def
  PATH_MAX_def



lemma write_sql_file_writable:
  assumes "writable fs (joinpath (fw_output_dir self) (service_name @ ''.sql''))"
  shows "write_sql_file U self service_name sql_statements fs =
    (Inr (joinpath (fw_output_dir self) (service_name @ ''.sql'')),
     fs\<lparr>files := (files fs)(joinpath (fw_output_dir self) (service_name @ ''.sql'') \<mapsto>
         header U service_name (fw_dialect self) @ join [CHR 0x0A, CHR 0x0A] sql_statements)\<rparr>)"
  using assms by (simp add: write_sql_file_def write_text_def writable_def Let_def)





text \<open>Writing a file changes nothing the walk to its directory looks at.\<close>

lemma walk_dirs_files_upd:
  "length seen + length cs < length (parts p) \<Longrightarrow>
   walk_dirs (fs\<lparr>files := (files fs)(p \<mapsto> c)\<rparr>) p seen cs = walk_dirs fs p seen cs"
proof (induction cs arbitrary: seen)
  case Nil
  then show ?case by simp
next
  case (Cons x cs)
  have ne: "PurePath (anchor p) (seen @ [x]) \<noteq> p"
  proof
    assume "PurePath (anchor p) (seen @ [x]) = p"
    then have "parts p = seen @ [x]"
      by (metis path.sel(2))
    with Cons.prems show False by simp
  qed
  from Cons.prems have "length (seen @ [x]) + length cs < length (parts p)"
    by simp
  from Cons.IH [OF this] ne show ?case
    by (simp add: is_file_def is_dir_def Let_def)
qed

lemma walk_parent_files_upd:
  "walk_parent (fs\<lparr>files := (files fs)(p \<mapsto> c)\<rparr>) p = walk_parent fs p"
proof (cases "parts p = []")
  case True
  then show ?thesis by (simp add: walk_parent_def)
next
  case False
  then have "length [] + length (butlast (parts p)) < length (parts p)"
    by simp
  from walk_dirs_files_upd [OF this] show ?thesis
    by (simp add: walk_parent_def)
qed

lemma path_error_files_upd:
  "path_error (fs\<lparr>files := (files fs)(p \<mapsto> c)\<rparr>) p = path_error fs p"
  by (simp add: path_error_def walk_parent_files_upd)

lemma write_text_twice:
  "write_text (snd (write_text fs p c)) p c = write_text fs p c"
  by (auto simp add: write_text_def path_error_files_upd is_dir_def split: option.splits)

lemma write_sql_file_twice:
  "write_sql_file U self service_name sql_statements
     (snd (write_sql_file U self service_name sql_statements fs))
   = write_sql_file U self service_name sql_statements fs"
proof -
  let ?p = "joinpath (fw_output_dir self) (service_name @ ''.sql'')"
  let ?c = "header U service_name (fw_dialect self) @ join [CHR 0x0A, CHR 0x0A] sql_statements"
  have s: "snd (write_sql_file U self service_name sql_statements fs)
           = snd (write_text fs ?p ?c)"
    by (simp add: write_sql_file_def Let_def split: prod.splits sum.splits)
  show ?thesis
    unfolding s
    using write_text_twice [of fs ?p ?c]
    by (simp add: write_sql_file_def Let_def)
qed




text \<open>
  C8: the text \<^verbatim>\<open>write_sql_file\<close> leaves at its target is a function of the service
  name, the statements and the dialect alone: it is the same from any two trees in which
  the target can be written, whatever file was there before, and writing once more on the
  tree a run has left returns the same path and changes nothing.
\<close>

theorem write_sql_file_deterministic_overwrite:
  assumes "writable fs1 (joinpath (fw_output_dir self) (service_name @ ''.sql''))"
    and "writable fs2 (joinpath (fw_output_dir self) (service_name @ ''.sql''))"
  shows "files (snd (write_sql_file U self service_name sql_statements fs1))
           (joinpath (fw_output_dir self) (service_name @ ''.sql''))
         = Some (header U service_name (fw_dialect self)
                 @ join [CHR 0x0A, CHR 0x0A] sql_statements)
       \<and> files (snd (write_sql_file U self service_name sql_statements fs2))
           (joinpath (fw_output_dir self) (service_name @ ''.sql''))
         = files (snd (write_sql_file U self service_name sql_statements fs1))
           (joinpath (fw_output_dir self) (service_name @ ''.sql''))
       \<and> write_sql_file U self service_name sql_statements
           (snd (write_sql_file U self service_name sql_statements fs1))
         = write_sql_file U self service_name sql_statements fs1"
  using write_sql_file_writable [OF assms(1), of U sql_statements]
    write_sql_file_writable [OF assms(2), of U sql_statements]
    write_sql_file_twice [of U self service_name sql_statements fs1]
  by simp

theorem write_sql_file_deterministic_overwrite_witness:
  "writable example_tree (joinpath (fw_output_dir example_writer) (''users'' @ ''.sql''))
   \<and> writable
        (example_tree\<lparr>files := [PurePath [] [''sql'', ''mysql'', ''users.sql''] \<mapsto> ''stale'']\<rparr>)
        (joinpath (fw_output_dir example_writer) (''users'' @ ''.sql''))
   \<and> files (snd (write_sql_file example_tables example_writer ''users''
                   [''CREATE TABLE t (id INT);'']
          (example_tree\<lparr>files := [PurePath [] [''sql'', ''mysql'', ''users.sql''] \<mapsto> ''stale'']\<rparr>)))
        (PurePath [] [''sql'', ''mysql'', ''users.sql''])
       = files (snd (write_sql_file example_tables example_writer ''users''
                       [''CREATE TABLE t (id INT);''] example_tree))
        (PurePath [] [''sql'', ''mysql'', ''users.sql''])
   \<and> write_sql_file example_tables example_writer ''users'' [''CREATE TABLE t (id INT);'']
         (snd (write_sql_file example_tables example_writer ''users''
                 [''CREATE TABLE t (id INT);''] example_tree))
       = write_sql_file example_tables example_writer ''users'' [''CREATE TABLE t (id INT);'']
           example_tree"
proof -
  have t: "joinpath (fw_output_dir example_writer) (''users'' @ ''.sql'')
           = PurePath [] [''sql'', ''mysql'', ''users.sql'']"
    by (simp add: example_writer_def path_defs)
  have h1: "writable example_tree (joinpath (fw_output_dir example_writer) (''users'' @ ''.sql''))"
    unfolding t by (simp add: example_tree_def path_str_def tree_defs)
  have h2: "writable
              (example_tree\<lparr>files := [PurePath [] [''sql'', ''mysql'', ''users.sql''] \<mapsto> ''stale'']\<rparr>)
              (joinpath (fw_output_dir example_writer) (''users'' @ ''.sql''))"
    unfolding t by (simp add: example_tree_def path_str_def tree_defs)
  from write_sql_file_deterministic_overwrite
         [OF h1 h2, of example_tables "[''CREATE TABLE t (id INT);'']"]
    h1 h2 t
  show ?thesis
    by simp
qed

section \<open>Properties of the orchestrator\<close>

lemma supported_repr:
  "py_repr U (PList (map PStr supported_dialects))
   = ''['postgresql', 'mysql', 'sqlserver', 'oracle']''"
  by (simp add: supported_dialects_def text_defs Let_def)

lemma init_db2:
  "FileWriter_init ''sql'' ''db2'' empty_tree
   = (Inr \<lparr>fw_output_dir = PurePath [] [''sql'', ''db2''], fw_dialect = ''db2''\<rparr>,
      \<lparr>files = Map.empty, dirs = {PurePath [] [''sql''], PurePath [] [''sql'', ''db2'']}\<rparr>)"
  by (simp add: FileWriter_init_def empty_tree_def path_defs tree_defs mkdir_parents.simps
      Let_def insert_commute)

lemma init_db2_blocked:
  "FileWriter_init ''sql'' ''db2'' blocked_tree
   = (Inl (NotADirectoryError ''sql/db2''), blocked_tree)"
  by (simp add: FileWriter_init_def blocked_tree_def path_defs tree_defs mkdir_parents.simps
      Let_def)

text \<open>
  When the two constructors called first return, the check of the dialect decides: a
  dialect outside the four raises the \<^verbatim>\<open>ValueError\<close> that names it and lists the
  four, one of the four gives the generator.
\<close>

lemma init_dialect_check:
  assumes "OpenApiProcessor build_dir fs = (Inr proc, fs1)"
    and "FileWriter_init output_dir dialect fs1 = (Inr writer, fs2)"
  shows "OpenApiSqlGenerator_init U OpenApiProcessor build_dir output_dir dialect fs
         = (if dialect \<in> set supported_dialects
            then (Inr \<lparr>gen_processor = proc, gen_file_writer = writer, gen_dialect = dialect,
                        gen_supported_dialects = supported_dialects\<rparr>, fs2)
            else (Inl (ValueError (''Unsupported dialect: '' @ dialect
                    @ ''. Supported: ['postgresql', 'mysql', 'sqlserver', 'oracle']'')), fs2))"
  unfolding OpenApiSqlGenerator_init_def supported_repr
  using assms by simp

text \<open>
  C2: constructing the generator with the unsupported dialect \<^verbatim>\<open>db2\<close> on an empty
  tree raises the \<^verbatim>\<open>ValueError\<close>, but only after the file writer has been
  constructed: the directories \<^verbatim>\<open>sql\<close> and \<^verbatim>\<open>sql/db2\<close> exist afterwards.
\<close>

theorem init_unsupported_dialect_creates_directory:
  "OpenApiSqlGenerator_init U example_OpenApiProcessor
     ''build/smithy'' ''sql'' ''db2'' empty_tree
   = (Inl (ValueError
        ''Unsupported dialect: db2. Supported: ['postgresql', 'mysql', 'sqlserver', 'oracle']''),
      \<lparr>files = Map.empty, dirs = {PurePath [] [''sql''], PurePath [] [''sql'', ''db2'']}\<rparr>)
   \<and> dirs empty_tree = {}"
proof -
  have raised:
    "OpenApiSqlGenerator_init U example_OpenApiProcessor
       ''build/smithy'' ''sql'' ''db2'' empty_tree
     = (Inl (ValueError
          ''Unsupported dialect: db2. Supported: ['postgresql', 'mysql', 'sqlserver', 'oracle']''),
        \<lparr>files = Map.empty, dirs = {PurePath [] [''sql''], PurePath [] [''sql'', ''db2'']}\<rparr>)"
    unfolding OpenApiSqlGenerator_init_def supported_repr
    by (simp add: init_db2 supported_dialects_def example_OpenApiProcessor_def)
  have before: "dirs empty_tree = {}"
    by (simp add: empty_tree_def)
  from raised before show ?thesis
    by blast
qed

text \<open>
  C5: constructing the generator with the unsupported dialect \<^verbatim>\<open>db2\<close> where
  \<^verbatim>\<open>sql\<close> is a regular file does not reach the check of the dialect: the file writer,
  constructed first, fails to make its directory, and the error raised is
  \<^verbatim>\<open>NotADirectoryError\<close>, whose text names neither the dialect as unsupported nor
  the supported values.
\<close>

theorem init_unsupported_dialect_other_error:
  "OpenApiSqlGenerator_init U example_OpenApiProcessor
     ''build/smithy'' ''sql'' ''db2'' blocked_tree
   = (Inl (NotADirectoryError ''sql/db2''), blocked_tree)
   \<and> exception_str U (NotADirectoryError ''sql/db2'')
     = ''[Errno 20] Not a directory: 'sql/db2'' @ [CHR 0x27]
   \<and> ''db2'' \<notin> set supported_dialects"
proof -
  have raised:
    "OpenApiSqlGenerator_init U example_OpenApiProcessor
       ''build/smithy'' ''sql'' ''db2'' blocked_tree
     = (Inl (NotADirectoryError ''sql/db2''), blocked_tree)"
    unfolding OpenApiSqlGenerator_init_def
    by (simp add: init_db2_blocked example_OpenApiProcessor_def)
  have shown: "exception_str U (NotADirectoryError ''sql/db2'')
               = ''[Errno 20] Not a directory: 'sql/db2'' @ [CHR 0x27]"
    by (simp add: text_defs Let_def)
  have unsupported: "''db2'' \<notin> set supported_dialects"
    by (simp add: supported_dialects_def)
  from raised shown unsupported show ?thesis
    by blast
qed

subsection \<open>The loop over the services\<close>







section \<open>Properties of the command line entry\<close>

text \<open>
  The exit status is 1 exactly when looking for the configuration file raises, or the
  file exists and the body of the \<^verbatim>\<open>try\<close> raises; in every other run it is 0.
\<close>

lemma main_exit_status:
  "fst (main U json_load OpenApiProcessor SqlGenerator project_root w)
   = (if (\<exists>e. path_exists (w_fs w)
                 (joinpath (joinpath (joinpath project_root ''libs'') ''config'')
                    ''params.json'') = Inl e)
         \<or> (path_exists (w_fs w)
               (joinpath (joinpath (joinpath project_root ''libs'') ''config'')
                  ''params.json'') = Inr True
            \<and> (\<exists>e. fst (main_try U json_load OpenApiProcessor SqlGenerator project_root
                           (joinpath (joinpath (joinpath project_root ''libs'') ''config'')
                              ''params.json'') w) = Inl e))
      then 1 else 0)"
  by (auto simp: main_def Let_def split: prod.splits sum.splits bool.splits)

text \<open>
  A configuration that names the dialect \<^verbatim>\<open>db2\<close>: the run ends with status 1 and
  the error line, after the directories \<^verbatim>\<open>/repo/sql\<close> and \<^verbatim>\<open>/repo/sql/db2\<close>
  have been made.
\<close>

lemma main_unsupported_dialect:
  "main U example_json_load example_OpenApiProcessor example_sql_generator
     (Path ''/repo'') \<lparr>w_fs = config_tree, w_out = []\<rparr>
   = (1, \<lparr>w_fs = \<lparr>files = files config_tree,
                   dirs = {PurePath ''/'' [''repo''], PurePath ''/'' [''repo'', ''sql''],
                           PurePath ''/'' [''repo'', ''libs''],
                           PurePath ''/'' [''repo'', ''sql'', ''db2''],
                           PurePath ''/'' [''repo'', ''libs'', ''config'']}\<rparr>,
           w_out = [[CHR 0xF0, CHR 0x9F, CHR 0x97, CHR 0x84, CHR 0xEF, CHR 0xB8, CHR 0x8F]
                    @ ''  Generating SQL DDL scripts for DB2...'',
                    [CHR 0xE2, CHR 0x9D, CHR 0x8C]
                    @ '' Error generating SQL: Unsupported dialect: db2. ''
                    @ ''Supported: ['postgresql', 'mysql', 'sqlserver', 'oracle']'']\<rparr>)"
  by (simp add: main_def main_try_def load_config_def read_text_def get_database_dialect_def
      py_get_def py_upper_def py_str_def example_json_load_def config_tree_def
      example_OpenApiProcessor_def OpenApiSqlGenerator_init_def FileWriter_init_def
      supported_dialects_def mkdir_parents.simps upper_def upper_char_def
      path_defs tree_defs print_def Let_def text_defs insert_commute)

text \<open>
  C6: with no configuration file, \<^verbatim>\<open>main\<close> prints the error line and returns: the
  process ends with status 0, and the tree is as it was.
\<close>

theorem main_missing_config_exits_zero:
  "main U json_load example_OpenApiProcessor example_sql_generator
     (Path ''/repo'') \<lparr>w_fs = empty_tree, w_out = []\<rparr>
   = (0, \<lparr>w_fs = empty_tree,
           w_out = [[CHR 0xE2, CHR 0x9D, CHR 0x8C]
                    @ '' Configuration file not found: /repo/libs/config/params.json'']\<rparr>)"
  by (simp add: main_def empty_tree_def path_defs tree_defs print_def Let_def)

end
